theory Spec2Isabelle
  imports Complex_Main "HOL-Library.Word"
begin

section \<open>Basic types\<close>

text \<open>
  Go's \<open>uint\<close> is a 64-bit word on the platforms the services run on. Instants
  (\<open>time.Time\<close>) and durations (\<open>time.Duration\<close>) are counted in nanoseconds.
\<close>

type_synonym uint = "64 word"
type_synonym time = int

definition Minute :: int where
  "Minute = 60000000000"

definition Second :: int where
  "Second = 1000000000"

text \<open>\<open>t.Unix()\<close>: the whole seconds of an instant.\<close>

definition Unix :: "time \<Rightarrow> int" where
  "Unix t = t div Second"

section \<open>Formatting and scanning decimal numbers\<close>

text \<open>
  \<open>fmt.Sprintf("%d", n)\<close> and \<open>fmt.Sscanf(s, "%d", &n)\<close> carry the lock holder
  through the Lock Store as text, and \<open>strconv.ParseUint(s, 10, 32)\<close> reads the
  path parameters.
\<close>

definition digit_char :: "nat \<Rightarrow> char" where
  "digit_char d = ''0123456789'' ! d"

fun format_nat :: "nat \<Rightarrow> string" where
  "format_nat n =
     (if n < 10 then [digit_char n] else format_nat (n div 10) @ [digit_char (n mod 10)])"

declare format_nat.simps [simp del]

definition format_uint :: "uint \<Rightarrow> string" where
  "format_uint n = format_nat (unat n)"

definition format_int :: "int \<Rightarrow> string" where
  "format_int i = (if i < 0 then CHR ''-'' # format_nat (nat (- i)) else format_nat (nat i))"

definition is_digit :: "char \<Rightarrow> bool" where
  "is_digit c = (48 \<le> (of_char c :: nat) \<and> (of_char c :: nat) \<le> 57)"

definition digit_val :: "char \<Rightarrow> nat" where
  "digit_val c = of_char c - 48"

definition decimal_value :: "string \<Rightarrow> nat" where
  "decimal_value ds = foldl (\<lambda>a c. 10 * a + digit_val c) 0 ds"

text \<open>
  The white space of package \<open>fmt\<close>, as UTF-8 encodes it in a Go string: U+0009 to
  U+000D and U+0020 in one byte, U+0085 and U+00A0 in two, U+1680, U+2000 to U+200A,
  U+2028, U+2029, U+202F, U+205F and U+3000 in three. The line feed U+000A is left
  out: \<open>Sscanf\<close> does not skip it, it ends the scan with an error.
\<close>

definition byte :: "char \<Rightarrow> nat" where
  "byte c = of_char c"

definition space1 :: "char \<Rightarrow> bool" where
  "space1 a = (byte a = 9 \<or> byte a = 11 \<or> byte a = 12 \<or> byte a = 13 \<or> byte a = 32)"

definition space2 :: "char \<Rightarrow> char \<Rightarrow> bool" where
  "space2 a b = (byte a = 194 \<and> (byte b = 133 \<or> byte b = 160))"

definition space3 :: "char \<Rightarrow> char \<Rightarrow> char \<Rightarrow> bool" where
  "space3 a b c =
     (byte a = 225 \<and> byte b = 154 \<and> byte c = 128
      \<or> byte a = 226 \<and> byte b = 128
          \<and> (128 \<le> byte c \<and> byte c \<le> 138 \<or> byte c = 168 \<or> byte c = 169 \<or> byte c = 175)
      \<or> byte a = 226 \<and> byte b = 129 \<and> byte c = 159
      \<or> byte a = 227 \<and> byte b = 128 \<and> byte c = 128)"

text \<open>\<open>SkipSpace\<close> of the scanner: drop the white space a string starts with.\<close>

fun SkipSpace :: "string \<Rightarrow> string" where
  "SkipSpace (a # b # c # rest) =
     (if space1 a then SkipSpace (b # c # rest)
      else if space2 a b then SkipSpace (c # rest)
      else if space3 a b c then SkipSpace rest
      else a # b # c # rest)"
| "SkipSpace [a, b] = (if space1 a then SkipSpace [b] else if space2 a b then [] else [a, b])"
| "SkipSpace [a] = (if space1 a then [] else [a])"
| "SkipSpace [] = []"

text \<open>
  \<open>fmt.Sscanf(s, "%d", &userID)\<close> with \<open>userID\<close> a \<open>uint\<close>: skip white space,
  read the run of digits that follows, fail when there is none or when its value does
  not fit in 64 bits. What follows the digits is left unread.
\<close>

definition Sscanf_uint :: "string \<Rightarrow> uint option" where
  "Sscanf_uint s =
     (let tok = takeWhile is_digit (SkipSpace s) in
      if tok = [] then None
      else if decimal_value tok < 2 ^ 64 then Some (of_nat (decimal_value tok))
      else None)"

text \<open>
  \<open>strconv.ParseUint(s, 10, 32)\<close> followed by the conversion \<open>uint(...)\<close>: the
  whole string is decimal digits and the value fits in 32 bits.
\<close>

definition ParseUint32 :: "string \<Rightarrow> uint option" where
  "ParseUint32 s =
     (if s \<noteq> [] \<and> list_all is_digit s \<and> decimal_value s < 2 ^ 32
      then Some (of_nat (decimal_value s))
      else None)"

section \<open>The Lock Store (internal/redis)\<close>

text \<open>
  A key holds a value and the instant at which it expires; a key whose instant has
  passed is gone. Every command reads the store's clock, given as \<open>now\<close>.
\<close>

type_synonym redis = "string \<rightharpoonup> (string \<times> time)"

definition live :: "redis \<Rightarrow> time \<Rightarrow> string \<Rightarrow> bool" where
  "live r now key = (case r key of None \<Rightarrow> False | Some (v, expiry) \<Rightarrow> now \<le> expiry)"

definition SetNX :: "redis \<Rightarrow> time \<Rightarrow> string \<Rightarrow> string \<Rightarrow> int \<Rightarrow> bool \<times> redis" where
  "SetNX r now key val ttl =
     (if live r now key then (False, r) else (True, r(key \<mapsto> (val, now + ttl))))"

definition Del :: "redis \<Rightarrow> string \<Rightarrow> redis" where
  "Del r key = r(key := None)"

definition Get :: "redis \<Rightarrow> time \<Rightarrow> string \<Rightarrow> string option" where
  "Get r now key = (case r key of None \<Rightarrow> None
                    | Some (v, expiry) \<Rightarrow> if now \<le> expiry then Some v else None)"

definition lock_key :: "uint \<Rightarrow> string" where
  "lock_key ticketID = ''ticket_lock:'' @ format_uint ticketID"

text \<open>
  \<open>LockTicket\<close>: \<open>SetNX\<close> with a lifetime of 10 minutes. \<open>err\<close> says that the
  command itself failed. The result \<open>True\<close> stands for Go's \<open>nil\<close> error: the key
  was set.
\<close>

definition LockTicket :: "bool \<Rightarrow> time \<Rightarrow> redis \<Rightarrow> uint \<Rightarrow> uint \<Rightarrow> bool \<times> redis" where
  "LockTicket err now r ticketID userID =
     (if err then (False, r)
      else SetNX r now (lock_key ticketID) (format_uint userID) (10 * Minute))"

text \<open>\<open>UnlockTicket\<close>: delete the key. The callers drop the error it returns.\<close>

definition UnlockTicket :: "bool \<Rightarrow> redis \<Rightarrow> uint \<Rightarrow> redis" where
  "UnlockTicket err r ticketID = (if err then r else Del r (lock_key ticketID))"

text \<open>\<open>GetTicketLockOwner\<close>: \<open>None\<close> is a non-nil error (a missing key is one).\<close>

definition GetTicketLockOwner :: "bool \<Rightarrow> time \<Rightarrow> redis \<Rightarrow> uint \<Rightarrow> uint option" where
  "GetTicketLockOwner err now r ticketID =
     (if err then None
      else case Get r now (lock_key ticketID) of
             None \<Rightarrow> None
           | Some v \<Rightarrow> Sscanf_uint v)"

section \<open>The data model (internal/models)\<close>

text \<open>
  A ticket row is kept under its primary key. \<open>float64\<close> prices are only copied by
  the handlers, never computed with, so a price is a real number here.
\<close>

record Ticket =
  T_EventID :: uint
  T_Seat :: string
  T_Price :: real
  T_Status :: string
  T_UserID :: "uint option"

text \<open>
  \<open>B_Deleted\<close> stands for \<open>gorm.Model\<close>'s \<open>DeletedAt\<close>: \<open>Delete\<close> on a model
  with that field marks the row, and every later query and update skips marked rows.
\<close>

record Booking =
  B_ID :: uint
  B_TicketID :: uint
  B_UserID :: uint
  B_Status :: string
  B_ReservedAt :: time
  B_ExpiresAt :: time
  B_PaymentID :: uint
  B_Deleted :: bool

section \<open>The Durable Store\<close>

text \<open>
  The store is PostgreSQL (\<open>database.Connect\<close>). A \<open>time.Time\<close> is kept in a
  timestamp column, which holds whole microseconds: the nanoseconds below are cut off
  on the way in.
\<close>

definition Microsecond :: int where
  "Microsecond = 1000"

definition timestamptz :: "time \<Rightarrow> time" where
  "timestamptz t = (t div Microsecond) * Microsecond"

text \<open>
  \<open>PaymentID\<close> is a \<open>uint\<close>, a \<open>bigint\<close> column. A statement that sets the
  column to a text is carried out only when the server reads the text as a number.
  Which numerals a server reads differs between its versions, so that reading is a
  parameter (\<open>server\<close>); every version refuses the empty text and a text that
  starts with a letter.
\<close>

definition is_letter :: "char \<Rightarrow> bool" where
  "is_letter c = (65 \<le> byte c \<and> byte c \<le> 90 \<or> 97 \<le> byte c \<and> byte c \<le> 122)"

definition bigint_in :: "(string \<Rightarrow> uint option) \<Rightarrow> string \<Rightarrow> uint option" where
  "bigint_in server s =
     (case s of
        [] \<Rightarrow> None
      | c # cs \<Rightarrow> if is_letter c then None else server s)"

record db =
  tickets :: "uint \<rightharpoonup> Ticket"
  bookings :: "Booking list"
  booking_seq :: uint

record world =
  DB :: db
  Redis :: redis

text \<open>\<open>db.First(&booking, conds)\<close>: the unmarked row of least id that meets the conditions.\<close>

definition First_booking :: "(Booking \<Rightarrow> bool) \<Rightarrow> db \<Rightarrow> Booking option" where
  "First_booking P d =
     (case filter (\<lambda>b. \<not> B_Deleted b \<and> P b) (bookings d) of
        [] \<Rightarrow> None
      | b # bs \<Rightarrow> Some (fold (\<lambda>x m. if B_ID x < B_ID m then x else m) bs b))"

text \<open>\<open>db.Find(&bookings, conds)\<close>: every unmarked row that meets the conditions.\<close>

definition Find_bookings :: "(Booking \<Rightarrow> bool) \<Rightarrow> db \<Rightarrow> Booking list" where
  "Find_bookings P d = filter (\<lambda>b. \<not> B_Deleted b \<and> P b) (bookings d)"

text \<open>\<open>db.Create(&booking)\<close>: the row is inserted under the next id of the sequence.\<close>

definition Create_booking :: "db \<Rightarrow> Booking \<Rightarrow> uint \<times> db" where
  "Create_booking d b =
     (booking_seq d,
      d\<lparr>bookings := bookings d @
          [b\<lparr>B_ID := booking_seq d, B_ReservedAt := timestamptz (B_ReservedAt b),
             B_ExpiresAt := timestamptz (B_ExpiresAt b)\<rparr>],
        booking_seq := booking_seq d + 1\<rparr>)"

text \<open>\<open>db.Model(&booking).Updates(...)\<close>: the unmarked rows with the booking's id.\<close>

definition Update_booking :: "db \<Rightarrow> uint \<Rightarrow> (Booking \<Rightarrow> Booking) \<Rightarrow> db" where
  "Update_booking d i f =
     d\<lparr>bookings := map (\<lambda>b. if B_ID b = i \<and> \<not> B_Deleted b then f b else b) (bookings d)\<rparr>"

definition Delete_booking :: "db \<Rightarrow> uint \<Rightarrow> db" where
  "Delete_booking d i = Update_booking d i (\<lambda>b. b\<lparr>B_Deleted := True\<rparr>)"

text \<open>\<open>db.Model(&ticket).Updates(...)\<close>: the ticket row with that id, when there is one.\<close>

definition Update_ticket :: "db \<Rightarrow> uint \<Rightarrow> (Ticket \<Rightarrow> Ticket) \<Rightarrow> db" where
  "Update_ticket d i f =
     (case tickets d i of
        None \<Rightarrow> d
      | Some t \<Rightarrow> d\<lparr>tickets := (tickets d)(i \<mapsto> f t)\<rparr>)"

section \<open>The Payment Gateway (package payment)\<close>

record PaymentIntent =
  PI_ID :: string
  PI_Amount :: real
  PI_Currency :: string
  PI_Status :: string

record PaymentRequest =
  PR_Amount :: real
  PR_Currency :: string
  PR_UserID :: uint
  PR_TicketID :: uint

record PaymentResponse =
  Intent :: PaymentIntent
  Success :: bool
  Error :: string

text \<open>
  \<open>MockStripeClient.CreatePaymentIntent\<close>. \<open>rate\<close> is the configured
  \<open>MockStripeSuccessRate\<close>, \<open>draw\<close> the value of \<open>rand.Float64()\<close> and \<open>now\<close> the
  clock when the id is made. The error it returns is always \<open>nil\<close>.
\<close>

definition CreatePaymentIntent :: "real \<Rightarrow> real \<Rightarrow> time \<Rightarrow> PaymentRequest \<Rightarrow> PaymentResponse" where
  "CreatePaymentIntent rate draw now req =
     (let paymentID = ''pi_mock_'' @ format_uint (PR_UserID req) @ ''_'' @ format_int (Unix now);
          success = (draw < rate)
      in \<lparr>Intent = \<lparr>PI_ID = paymentID, PI_Amount = PR_Amount req,
                     PI_Currency = PR_Currency req,
                     PI_Status = (if success then ''succeeded'' else ''failed'')\<rparr>,
          Success = success,
          Error = (if success then [] else ''Mock payment failure - insufficient funds'')\<rparr>)"

text \<open>
  What \<open>ConfirmBooking\<close> sees of a gateway: the response, or (\<open>Inl\<close>) the error of
  the call.
\<close>

type_synonym gateway = "PaymentRequest \<Rightarrow> string + PaymentResponse"

definition MockStripe :: "real \<Rightarrow> real \<Rightarrow> time \<Rightarrow> gateway" where
  "MockStripe rate draw now req = Inr (CreatePaymentIntent rate draw now req)"

section \<open>Requests and responses\<close>

text \<open>
  Package \<open>auth\<close> is not part of the sources at hand: its two functions are
  parameters of the handlers. \<open>None\<close> is a non-nil error.
\<close>

record Claims =
  UserID :: uint

record auth =
  ExtractTokenFromHeader :: "string \<Rightarrow> string option"
  ValidateToken :: "string \<Rightarrow> Claims option"

text \<open>The JSON bodies the handlers send, with their HTTP status.\<close>

datatype body =
    ErrorBody string
  | ErrorDetails string string
  | ReserveBody uint uint time string
  | ConfirmBody uint uint string string
  | MessageBody string
  | BookingsBody "Booking list" nat

type_synonym response = "nat \<times> body"

abbreviation StatusOK :: nat where "StatusOK \<equiv> 200"
abbreviation StatusBadRequest :: nat where "StatusBadRequest \<equiv> 400"
abbreviation StatusUnauthorized :: nat where "StatusUnauthorized \<equiv> 401"
abbreviation StatusPaymentRequired :: nat where "StatusPaymentRequired \<equiv> 402"
abbreviation StatusForbidden :: nat where "StatusForbidden \<equiv> 403"
abbreviation StatusNotFound :: nat where "StatusNotFound \<equiv> 404"
abbreviation StatusConflict :: nat where "StatusConflict \<equiv> 409"
abbreviation StatusGone :: nat where "StatusGone \<equiv> 410"
abbreviation StatusInternalServerError :: nat where "StatusInternalServerError \<equiv> 500"

text \<open>
  The block every handler of the booking service runs on the \<open>Authorization\<close>
  header: the claims of the caller, or the response that ends the request.
\<close>

definition authenticate :: "auth \<Rightarrow> string \<Rightarrow> response + Claims" where
  "authenticate a authHeader =
     (if authHeader = [] then Inl (StatusUnauthorized, ErrorBody ''Authorization header required'')
      else case ExtractTokenFromHeader a authHeader of
             None \<Rightarrow> Inl (StatusUnauthorized, ErrorBody ''Invalid authorization header'')
           | Some tokenString \<Rightarrow>
               (case ValidateToken a tokenString of
                  None \<Rightarrow> Inl (StatusUnauthorized, ErrorBody ''Invalid token'')
                | Some claims \<Rightarrow> Inr claims))"

section \<open>The booking service (internal/services/booking)\<close>

text \<open>
  A handler runs against the two stores, the clock and the gateway. What it meets
  there is given to the model as an environment: the clock readings in the order the
  handler takes them and, for every call to a store, whether that call returns an
  error. A call that returns an error leaves its store as it was.
\<close>

subsection \<open>ReserveTicket\<close>

record reserve_env =
  r_fetch_err :: bool
  r_lock_err :: bool
  r_lock_time :: time
  r_reserved_now :: time
  r_expires_now :: time
  r_create_err :: bool
  r_unlock_err :: bool
  r_update_err :: bool

text \<open>
  \<open>body\<close> is the bound JSON body (\<open>None\<close>: it did not bind); \<open>binding:"required"\<close>
  rejects a zero \<open>ticketId\<close>. The \<open>details\<close> text of a binding error is left out
  of the answer. \<open>time.Now()\<close> is read once for \<open>ReservedAt\<close> and once
  more for \<open>ExpiresAt\<close>; the answer carries the \<open>ExpiresAt\<close> of the struct, not
  the stored one. The error of the last update is dropped by the handler.
\<close>

definition ReserveTicket ::
  "auth \<Rightarrow> reserve_env \<Rightarrow> string \<Rightarrow> uint option \<Rightarrow> world \<Rightarrow> response \<times> world" where
  "ReserveTicket a env authHeader body w =
     (case authenticate a authHeader of
        Inl resp \<Rightarrow> (resp, w)
      | Inr claims \<Rightarrow>
     (case body of
        None \<Rightarrow> ((StatusBadRequest, ErrorBody ''Invalid request data''), w)
      | Some ticketID \<Rightarrow>
     if ticketID = 0 then ((StatusBadRequest, ErrorBody ''Invalid request data''), w)
     else if r_fetch_err env then
       ((StatusInternalServerError, ErrorBody ''Failed to fetch ticket''), w)
     else
     (case tickets (DB w) ticketID of
        None \<Rightarrow> ((StatusNotFound, ErrorBody ''Ticket not found''), w)
      | Some ticket \<Rightarrow>
     if T_Status ticket \<noteq> ''available'' then
       ((StatusConflict, ErrorBody ''Ticket is not available''), w)
     else
     let (ok, locked) =
           LockTicket (r_lock_err env) (r_lock_time env) (Redis w) ticketID (UserID claims)
     in
     if \<not> ok then
       ((StatusConflict, ErrorBody ''Ticket is currently being processed by another user''), w)
     else
     let booking = \<lparr>B_ID = 0, B_TicketID = ticketID, B_UserID = UserID claims,
                    B_Status = ''reserved'', B_ReservedAt = r_reserved_now env,
                    B_ExpiresAt = r_expires_now env + 10 * Minute,
                    B_PaymentID = 0, B_Deleted = False\<rparr>
     in
     if r_create_err env then
       ((StatusInternalServerError, ErrorBody ''Failed to create booking''),
        w\<lparr>Redis := UnlockTicket (r_unlock_err env) locked ticketID\<rparr>)
     else
     let (bookingID, created) = Create_booking (DB w) booking;
         updated = (if r_update_err env then created
                    else Update_ticket created ticketID (\<lambda>t. t\<lparr>T_Status := ''reserved''\<rparr>))
     in ((StatusOK, ReserveBody bookingID ticketID (r_expires_now env + 10 * Minute)
                      ''Ticket reserved successfully''),
         \<lparr>DB = updated, Redis = locked\<rparr>))))"

subsection \<open>ConfirmBooking\<close>

record confirm_req =
  TicketID :: uint
  PaymentDetails :: string

record confirm_env =
  c_fetch_err :: bool
  c_now :: time
  c_delete_err :: bool
  c_unlock_err :: bool
  c_reset_err :: bool
  c_owner_err :: bool
  c_owner_time :: time
  c_booking_update_err :: bool
  c_ticket_update_err :: bool
  c_commit_err :: bool
  c_bigint :: "string \<Rightarrow> uint option"

text \<open>
  The reservation looked for is the caller's row for the ticket with status
  \<open>reserved\<close>. Past its \<open>ExpiresAt\<close> the handler deletes the row, unlocks the
  ticket and sets it \<open>available\<close>, each in a statement of its own on \<open>s.db\<close> and
  each with its error dropped. Otherwise, after the lock check and the payment, the
  two updates run on the transaction \<open>tx\<close>: they reach the store at \<open>Commit\<close>, and
  every error before or at \<open>Commit\<close> leaves the store as it was. An update through
  the preloaded ticket has no row to name when the ticket is missing, and fails.
  \<open>paymentReq\<close> is the request the handler builds: the price is the preloaded
  ticket's, the zero value when the ticket is missing. The update of the booking sets
  \<open>payment_id\<close> to the gateway's id, a text, through a map: the statement fails
  unless the store reads that text as a number (\<open>bigint_in\<close>, with the server's
  reading \<open>c_bigint\<close>).
\<close>

definition paymentReq :: "db \<Rightarrow> Booking \<Rightarrow> Claims \<Rightarrow> confirm_req \<Rightarrow> PaymentRequest" where
  "paymentReq d booking claims req =
     \<lparr>PR_Amount = (case tickets d (B_TicketID booking) of None \<Rightarrow> 0 | Some t \<Rightarrow> T_Price t),
      PR_Currency = ''ntd'', PR_UserID = UserID claims, PR_TicketID = TicketID req\<rparr>"

definition ConfirmBooking ::
  "auth \<Rightarrow> gateway \<Rightarrow> confirm_env \<Rightarrow> string \<Rightarrow> confirm_req option \<Rightarrow> world
     \<Rightarrow> response \<times> world" where
  "ConfirmBooking a pay env authHeader body w =
     (case authenticate a authHeader of
        Inl resp \<Rightarrow> (resp, w)
      | Inr claims \<Rightarrow>
     (case body of
        None \<Rightarrow> ((StatusBadRequest, ErrorBody ''Invalid request data''), w)
      | Some req \<Rightarrow>
     if TicketID req = 0 \<or> PaymentDetails req = [] then
       ((StatusBadRequest, ErrorBody ''Invalid request data''), w)
     else if c_fetch_err env then
       ((StatusInternalServerError, ErrorBody ''Failed to fetch booking''), w)
     else
     (case First_booking (\<lambda>b. B_TicketID b = TicketID req \<and> B_UserID b = UserID claims
                               \<and> B_Status b = ''reserved'') (DB w) of
        None \<Rightarrow> ((StatusNotFound, ErrorBody ''No active reservation found for this ticket''), w)
      | Some booking \<Rightarrow>
     if c_now env > B_ExpiresAt booking then
       let deleted = (if c_delete_err env then DB w else Delete_booking (DB w) (B_ID booking));
           unlocked = UnlockTicket (c_unlock_err env) (Redis w) (TicketID req);
           reset = (if c_reset_err env then deleted
                    else Update_ticket deleted (TicketID req) (\<lambda>t. t\<lparr>T_Status := ''available''\<rparr>))
       in ((StatusGone, ErrorBody ''Reservation has expired''), \<lparr>DB = reset, Redis = unlocked\<rparr>)
     else
     (case GetTicketLockOwner (c_owner_err env) (c_owner_time env) (Redis w) (TicketID req) of
        None \<Rightarrow> ((StatusConflict, ErrorBody ''Ticket lock has been released''), w)
      | Some lockOwner \<Rightarrow>
     if lockOwner \<noteq> UserID claims then
       ((StatusConflict, ErrorBody ''Ticket lock has been released''), w)
     else
     (case pay (paymentReq (DB w) booking claims req) of
        Inl err \<Rightarrow> ((StatusInternalServerError, ErrorBody ''Payment processing failed''), w)
      | Inr paymentResp \<Rightarrow>
     if \<not> Success paymentResp then
       ((StatusPaymentRequired, ErrorDetails ''Payment failed'' (Error paymentResp)), w)
     else if c_booking_update_err env then
       ((StatusInternalServerError, ErrorBody ''Failed to confirm booking''), w)
     else
     (case bigint_in (c_bigint env) (PI_ID (Intent paymentResp)) of
        None \<Rightarrow> ((StatusInternalServerError, ErrorBody ''Failed to confirm booking''), w)
      | Some paymentID \<Rightarrow>
     let tx1 = Update_booking (DB w) (B_ID booking)
                 (\<lambda>b. b\<lparr>B_Status := ''confirmed'', B_PaymentID := paymentID\<rparr>)
     in
     if c_ticket_update_err env \<or> tickets tx1 (B_TicketID booking) = None then
       ((StatusInternalServerError, ErrorBody ''Failed to update ticket''), w)
     else
     let tx2 = Update_ticket tx1 (B_TicketID booking)
                 (\<lambda>t. t\<lparr>T_Status := ''booked'', T_UserID := Some (UserID claims)\<rparr>)
     in
     if c_commit_err env then
       ((StatusInternalServerError, ErrorBody ''Failed to confirm booking''), w)
     else
       ((StatusOK, ConfirmBody (B_ID booking) (TicketID req) (PI_ID (Intent paymentResp))
                     ''Booking confirmed successfully''),
        \<lparr>DB = tx2, Redis = UnlockTicket (c_unlock_err env) (Redis w) (TicketID req)\<rparr>)))))))"

subsection \<open>CancelBooking\<close>

record cancel_env =
  x_fetch_err :: bool
  x_booking_update_err :: bool
  x_ticket_update_err :: bool
  x_commit_err :: bool
  x_unlock_err :: bool

text \<open>
  The booking is looked up by its id and the caller's id alone. The two updates run on
  a transaction, as in \<open>ConfirmBooking\<close>.
\<close>

definition CancelBooking ::
  "auth \<Rightarrow> cancel_env \<Rightarrow> string \<Rightarrow> string \<Rightarrow> world \<Rightarrow> response \<times> world" where
  "CancelBooking a env bookingIDStr authHeader w =
     (case ParseUint32 bookingIDStr of
        None \<Rightarrow> ((StatusBadRequest, ErrorBody ''Invalid booking ID''), w)
      | Some bookingID \<Rightarrow>
     (case authenticate a authHeader of
        Inl resp \<Rightarrow> (resp, w)
      | Inr claims \<Rightarrow>
     if x_fetch_err env then
       ((StatusInternalServerError, ErrorBody ''Failed to fetch booking''), w)
     else
     (case First_booking (\<lambda>b. B_ID b = bookingID \<and> B_UserID b = UserID claims) (DB w) of
        None \<Rightarrow> ((StatusNotFound, ErrorBody ''Booking not found''), w)
      | Some booking \<Rightarrow>
     if x_booking_update_err env then
       ((StatusInternalServerError, ErrorBody ''Failed to cancel booking''), w)
     else
     let tx1 = Update_booking (DB w) (B_ID booking) (\<lambda>b. b\<lparr>B_Status := ''cancelled''\<rparr>)
     in
     if x_ticket_update_err env \<or> tickets tx1 (B_TicketID booking) = None then
       ((StatusInternalServerError, ErrorBody ''Failed to update ticket''), w)
     else
     let tx2 = Update_ticket tx1 (B_TicketID booking)
                 (\<lambda>t. t\<lparr>T_Status := ''available'', T_UserID := None\<rparr>)
     in
     if x_commit_err env then
       ((StatusInternalServerError, ErrorBody ''Failed to cancel booking''), w)
     else
       ((StatusOK, MessageBody ''Booking cancelled successfully''),
        \<lparr>DB = tx2, Redis = UnlockTicket (x_unlock_err env) (Redis w) (B_TicketID booking)\<rparr>))))"

subsection \<open>GetUserBookings\<close>

text \<open>
  The handler only reads. The rows are sent without the ticket, event, venue and
  performer that \<open>Preload\<close> attaches to them.
\<close>

definition GetUserBookings :: "auth \<Rightarrow> bool \<Rightarrow> string \<Rightarrow> string \<Rightarrow> world \<Rightarrow> response" where
  "GetUserBookings a find_err userIDStr authHeader w =
     (case ParseUint32 userIDStr of
        None \<Rightarrow> (StatusBadRequest, ErrorBody ''Invalid user ID'')
      | Some userID \<Rightarrow>
     (case authenticate a authHeader of
        Inl resp \<Rightarrow> resp
      | Inr claims \<Rightarrow>
     if UserID claims \<noteq> userID then (StatusForbidden, ErrorBody ''Access denied'')
     else if find_err then (StatusInternalServerError, ErrorBody ''Failed to fetch bookings'')
     else
     let found = Find_bookings (\<lambda>b. B_UserID b = userID) (DB w)
     in (StatusOK, BookingsBody found (length found))))"

subsection \<open>The statuses of a ticket\<close>

text \<open>
  The statuses the services write on a ticket: \<open>available\<close> when it is created,
  cancelled or cleaned up, \<open>reserved\<close> in \<open>ReserveTicket\<close>, \<open>booked\<close> in
  \<open>ConfirmBooking\<close>.
\<close>

definition ticket_statuses :: "string set" where
  "ticket_statuses = {''available'', ''reserved'', ''booked''}"

definition statuses_ok :: "db \<Rightarrow> bool" where
  "statuses_ok d = (\<forall>t \<in> ran (tickets d). T_Status t \<in> ticket_statuses)"

section \<open>A small world to run the handlers in\<close>

text \<open>
  Two callers, alice (user 1) and bob (user 2), and one ticket, number 7.
\<close>

definition demo_auth :: auth where
  "demo_auth = \<lparr>ExtractTokenFromHeader = (\<lambda>h. if take 7 h = ''Bearer '' then Some (drop 7 h) else None),
     ValidateToken = (\<lambda>t. if t = ''alice'' then Some \<lparr>UserID = 1\<rparr>
                           else if t = ''bob'' then Some \<lparr>UserID = 2\<rparr> else None)\<rparr>"

definition demo_ticket :: "string \<Rightarrow> uint option \<Rightarrow> Ticket" where
  "demo_ticket st owner = \<lparr>T_EventID = 3, T_Seat = ''Standard-1'', T_Price = 9999 / 100, T_Status = st, T_UserID = owner\<rparr>"

definition demo_booking :: "uint \<Rightarrow> uint \<Rightarrow> string \<Rightarrow> bool \<Rightarrow> Booking" where
  "demo_booking i u st del = \<lparr>B_ID = i, B_TicketID = 7, B_UserID = u, B_Status = st,
      B_ReservedAt = 0, B_ExpiresAt = 10 * Minute, B_PaymentID = 0, B_Deleted = del\<rparr>"

definition demo_world :: "string \<Rightarrow> uint option \<Rightarrow> Booking list \<Rightarrow> redis \<Rightarrow> world" where
  "demo_world st owner bs r = \<lparr>DB = \<lparr>tickets = [7 \<mapsto> demo_ticket st owner], bookings = bs, booking_seq = 1 + of_nat (length bs)\<rparr>, Redis = r\<rparr>"

definition demo_reserve_env :: reserve_env where
  "demo_reserve_env = \<lparr>r_fetch_err = False, r_lock_err = False, r_lock_time = 0, r_reserved_now = 0,
     r_expires_now = 0, r_create_err = False, r_unlock_err = False, r_update_err = False\<rparr>"

text \<open>A server that reads decimal digits and nothing else.\<close>

definition demo_bigint :: "string \<Rightarrow> uint option" where
  "demo_bigint s =
     (if s \<noteq> [] \<and> list_all is_digit s \<and> decimal_value s < 2 ^ 63
      then Some (of_nat (decimal_value s))
      else None)"

definition demo_confirm_env :: "time \<Rightarrow> confirm_env" where
  "demo_confirm_env now = \<lparr>c_fetch_err = False, c_now = now, c_delete_err = False, c_unlock_err = False,
     c_reset_err = False, c_owner_err = False, c_owner_time = now, c_booking_update_err = False,
     c_ticket_update_err = False, c_commit_err = False, c_bigint = demo_bigint\<rparr>"

definition demo_cancel_env :: cancel_env where
  "demo_cancel_env = \<lparr>x_fetch_err = False, x_booking_update_err = False, x_ticket_update_err = False,
     x_commit_err = False, x_unlock_err = False\<rparr>"

section \<open>Evaluation of the formats the examples use\<close>

lemmas demo_defs = demo_auth_def demo_ticket_def demo_booking_def demo_world_def demo_reserve_env_def demo_confirm_env_def demo_cancel_env_def

lemma lock_key_7: "lock_key 7 = ''ticket_lock:7''"
  by (simp add: lock_key_def format_uint_def format_nat.simps digit_char_def)

lemma format_uint_1: "format_uint 1 = ''1''"
  by (simp add: format_uint_def format_nat.simps digit_char_def)

lemma format_uint_2: "format_uint 2 = ''2''"
  by (simp add: format_uint_def format_nat.simps digit_char_def)

lemma ParseUint32_1: "ParseUint32 ''1'' = Some 1"
  by (simp add: ParseUint32_def is_digit_def decimal_value_def digit_val_def)

lemma Sscanf_uint_1: "Sscanf_uint ''1'' = Some 1"
  by (simp add: Sscanf_uint_def is_digit_def space1_def byte_def decimal_value_def digit_val_def)

lemma Sscanf_uint_2: "Sscanf_uint ''2'' = Some 2"
  by (simp add: Sscanf_uint_def is_digit_def space1_def byte_def decimal_value_def digit_val_def)

lemma format_int_300: "format_int (Unix 300000000000) = ''300''"
  by (simp add: format_int_def Unix_def Second_def format_nat.simps digit_char_def)

section \<open>Decimal text read back\<close>

lemma below_ten: "d < 10 \<Longrightarrow> d \<in> {0, 1, 2, 3, 4, 5, 6, 7, 8, 9::nat}"
  by auto

lemma digit_val_digit_char: "d < 10 \<Longrightarrow> digit_val (digit_char d) = d"
  by (drule below_ten) (auto simp: digit_val_def digit_char_def)

lemma is_digit_digit_char: "d < 10 \<Longrightarrow> is_digit (digit_char d)"
  by (drule below_ten) (auto simp: is_digit_def digit_char_def)

lemma SkipSpace_digit: "is_digit a \<Longrightarrow> SkipSpace (a # rest) = a # rest"
  by (cases "a # rest" rule: SkipSpace.cases)
    (auto simp: is_digit_def space1_def space2_def space3_def byte_def)

lemma format_nat_digits: "list_all is_digit (format_nat n)"
proof (induction n rule: format_nat.induct)
  case (1 n)
  show ?case
  proof (cases "n < 10")
    case True
    then show ?thesis by (simp add: format_nat.simps [of n] is_digit_digit_char)
  next
    case False
    with 1 show ?thesis by (simp add: format_nat.simps [of n] is_digit_digit_char)
  qed
qed

lemma format_nat_nonempty: "format_nat n \<noteq> []"
  by (subst format_nat.simps) simp

lemma decimal_value_snoc: "decimal_value (ds @ [c]) = 10 * decimal_value ds + digit_val c"
  by (simp add: decimal_value_def)

lemma decimal_value_format_nat: "decimal_value (format_nat n) = n"
proof (induction n rule: format_nat.induct)
  case (1 n)
  show ?case
  proof (cases "n < 10")
    case True
    then show ?thesis
      by (simp add: format_nat.simps [of n] decimal_value_def digit_val_digit_char)
  next
    case False
    with 1 show ?thesis
      by (simp add: format_nat.simps [of n] decimal_value_snoc digit_val_digit_char)
  qed
qed

lemma takeWhile_all: "list_all P xs \<Longrightarrow> takeWhile P xs = xs"
  by (induction xs) auto

lemma SkipSpace_digits: "list_all is_digit xs \<Longrightarrow> SkipSpace xs = xs"
  by (cases xs) (simp_all add: SkipSpace_digit)

text \<open>What \<open>LockTicket\<close> writes, \<open>GetTicketLockOwner\<close> reads back.\<close>

lemma Sscanf_format_uint: "Sscanf_uint (format_uint u) = Some u"
proof -
  have "unat u < 2 ^ 64" using unsigned_less [of u] by simp
  then show ?thesis
    by (simp add: Sscanf_uint_def format_uint_def Let_def format_nat_digits SkipSpace_digits
        takeWhile_all format_nat_nonempty decimal_value_format_nat)
qed

section \<open>What the handlers do, step by step\<close>

lemma authenticate_Inl: "authenticate a h = Inl resp \<Longrightarrow> fst resp = StatusUnauthorized"
  by (auto simp: authenticate_def split: if_splits option.splits)

lemma LockTicket_True:
  "LockTicket err now r ticketID userID = (True, locked) \<longleftrightarrow>
     \<not> err \<and> \<not> live r now (lock_key ticketID)
     \<and> locked = r(lock_key ticketID \<mapsto> (format_uint userID, now + 10 * Minute))"
  by (auto simp: LockTicket_def SetNX_def)

lemma LockTicket_False:
  "LockTicket err now r ticketID userID = (False, locked) \<Longrightarrow> locked = r"
  by (auto simp: LockTicket_def SetNX_def split: if_splits)

text \<open>What a run of \<open>ReserveTicket\<close> that answers 200 has met and done.\<close>

lemma ReserveTicket_OK:
  assumes "ReserveTicket a env authHeader body w = ((StatusOK, answer), w')"
  shows "\<exists>claims ticketID t.
      authenticate a authHeader = Inr claims \<and> body = Some ticketID \<and> ticketID \<noteq> 0
      \<and> \<not> r_fetch_err env \<and> tickets (DB w) ticketID = Some t \<and> T_Status t = ''available''
      \<and> \<not> r_lock_err env \<and> \<not> live (Redis w) (r_lock_time env) (lock_key ticketID)
      \<and> \<not> r_create_err env
      \<and> answer = ReserveBody (booking_seq (DB w)) ticketID (r_expires_now env + 10 * Minute)
                    ''Ticket reserved successfully''
      \<and> Redis w' = (Redis w)(lock_key ticketID \<mapsto>
                       (format_uint (UserID claims), r_lock_time env + 10 * Minute))
      \<and> bookings (DB w') = bookings (DB w) @
           [\<lparr>B_ID = booking_seq (DB w), B_TicketID = ticketID, B_UserID = UserID claims,
             B_Status = ''reserved'', B_ReservedAt = timestamptz (r_reserved_now env),
             B_ExpiresAt = timestamptz (r_expires_now env + 10 * Minute),
             B_PaymentID = 0, B_Deleted = False\<rparr>]
      \<and> booking_seq (DB w') = booking_seq (DB w) + 1
      \<and> tickets (DB w') = (if r_update_err env then tickets (DB w)
                            else (tickets (DB w))(ticketID \<mapsto> t\<lparr>T_Status := ''reserved''\<rparr>))"
proof (cases "authenticate a authHeader")
  case (Inl resp)
  with assms authenticate_Inl [OF Inl] show ?thesis
    by (simp add: ReserveTicket_def)
next
  case (Inr claims)
  show ?thesis
  proof (cases body)
    case None
    with assms Inr show ?thesis by (simp add: ReserveTicket_def)
  next
    case (Some ticketID)
    show ?thesis
    proof (cases "tickets (DB w) ticketID")
      case None
      with assms Inr Some show ?thesis by (simp add: ReserveTicket_def split: if_splits)
    next
      case (Some t)
      obtain ok locked where lock:
        "LockTicket (r_lock_err env) (r_lock_time env) (Redis w) ticketID (UserID claims) = (ok, locked)"
        by (cases "LockTicket (r_lock_err env) (r_lock_time env) (Redis w) ticketID (UserID claims)")
      from assms Inr \<open>body = Some ticketID\<close> Some lock have ok: ok
        by (auto simp: ReserveTicket_def split: if_splits)
      with lock have l: "\<not> r_lock_err env" "\<not> live (Redis w) (r_lock_time env) (lock_key ticketID)"
        "locked = (Redis w)(lock_key ticketID \<mapsto> (format_uint (UserID claims), r_lock_time env + 10 * Minute))"
        by (simp_all add: LockTicket_True)
      from assms Inr \<open>body = Some ticketID\<close> Some lock ok l show ?thesis
        by (auto simp: ReserveTicket_def Create_booking_def Update_ticket_def split: if_splits)
    qed
  qed
qed

subsection \<open>Ticket statuses stay in their domain\<close>

lemma statuses_ok_Update_ticket:
  "statuses_ok d \<Longrightarrow> (\<And>t. T_Status (f t) \<in> ticket_statuses) \<Longrightarrow> statuses_ok (Update_ticket d i f)"
  by (auto simp: statuses_ok_def Update_ticket_def ran_def split: option.splits if_splits)

lemma tickets_Update_booking [simp]: "tickets (Update_booking d i f) = tickets d"
  by (simp add: Update_booking_def)

lemma tickets_Delete_booking [simp]: "tickets (Delete_booking d i) = tickets d"
  by (simp add: Delete_booking_def)

lemma tickets_Create_booking [simp]: "tickets (snd (Create_booking d b)) = tickets d"
  by (simp add: Create_booking_def)

lemma statuses_ok_cong: "tickets d' = tickets d \<Longrightarrow> statuses_ok d' = statuses_ok d"
  by (simp add: statuses_ok_def)

lemma statuses_ok_ReserveTicket:
  "statuses_ok (DB w) \<Longrightarrow> statuses_ok (DB (snd (ReserveTicket a env authHeader body w)))"
  by (auto simp: ReserveTicket_def Let_def ticket_statuses_def Create_booking_def
      statuses_ok_cong [of "d\<lparr>bookings := bs, booking_seq := n\<rparr>" d for d bs n]
      intro!: statuses_ok_Update_ticket
      split: sum.splits option.splits prod.splits)

lemma statuses_ok_ConfirmBooking:
  "statuses_ok (DB w) \<Longrightarrow> statuses_ok (DB (snd (ConfirmBooking a pay env authHeader body w)))"
  by (auto simp: ConfirmBooking_def Let_def ticket_statuses_def
      statuses_ok_cong [of "Update_booking d i f" d for d i f]
      statuses_ok_cong [of "Delete_booking d i" d for d i]
      intro!: statuses_ok_Update_ticket
      split: sum.splits option.splits)

lemma statuses_ok_CancelBooking:
  "statuses_ok (DB w) \<Longrightarrow> statuses_ok (DB (snd (CancelBooking a env bookingIDStr authHeader w)))"
  by (auto simp: CancelBooking_def Let_def ticket_statuses_def
      statuses_ok_cong [of "Update_booking d i f" d for d i f]
      intro!: statuses_ok_Update_ticket
      split: sum.splits option.splits)

subsection \<open>Queries on the bookings\<close>

lemma bookings_Update_ticket [simp]: "bookings (Update_ticket d i f) = bookings d"
  by (simp add: Update_ticket_def split: option.splits)









subsection \<open>What the store keeps of an instant\<close>

lemma timestamptz_0: "timestamptz 0 = 0"
  by (simp add: timestamptz_def)

lemma timestamptz_10min: "timestamptz (10 * Minute) = 10 * Minute"
  by (simp add: timestamptz_def Microsecond_def Minute_def)

subsection \<open>A failed creation of the booking\<close>

text \<open>
  The branch of \<open>ReserveTicket\<close> that checks the error of its write: the lock just
  taken is released, the Durable Store is as it was, the answer is 500.
\<close>

lemma ReserveTicket_failed_create:
  assumes "authenticate a authHeader = Inr claims" and "ticketID \<noteq> 0"
    and "\<not> r_fetch_err env" and "tickets (DB w) ticketID = Some t"
    and "T_Status t = ''available''"
    and "LockTicket (r_lock_err env) (r_lock_time env) (Redis w) ticketID (UserID claims)
           = (True, locked)"
    and "r_create_err env" and "\<not> r_unlock_err env"
  shows "ReserveTicket a env authHeader (Some ticketID) w
           = ((StatusInternalServerError, ErrorBody ''Failed to create booking''),
              w\<lparr>Redis := locked(lock_key ticketID := None)\<rparr>)"
  using assms by (simp add: ReserveTicket_def UnlockTicket_def Del_def)

subsection \<open>The paid path of ConfirmBooking\<close>

lemma CreatePaymentIntent_paid:
  "draw < rate \<Longrightarrow> Success (CreatePaymentIntent rate draw now preq)
     \<and> PI_ID (Intent (CreatePaymentIntent rate draw now preq))
         = ''pi_mock_'' @ format_uint (PR_UserID preq) @ ''_'' @ format_int (Unix now)"
  by (simp add: CreatePaymentIntent_def)

lemma GetTicketLockOwner_after_lock:
  assumes "r key = Some (format_uint u, expiry)" and "key = lock_key ticketID" and "now \<le> expiry"
  shows "GetTicketLockOwner False now r ticketID = Some u"
  using assms by (simp add: GetTicketLockOwner_def Get_def Sscanf_format_uint)

text \<open>No server reads an id of the mock gateway as a number: it starts with a letter.\<close>

lemma bigint_in_pi_mock: "bigint_in server (''pi_mock_'' @ rest) = None"
  by (simp add: bigint_in_def is_letter_def byte_def)

lemma bigint_in_mock_id:
  "bigint_in server (PI_ID (Intent (CreatePaymentIntent rate draw now preq))) = None"
  using bigint_in_pi_mock [of server]
  by (simp add: CreatePaymentIntent_def Let_def)

text \<open>
  Past the payment, \<open>ConfirmBooking\<close> either commits both updates or leaves the
  store as it was; it commits only when the store reads the gateway's id as a number.
\<close>

lemma ConfirmBooking_paid:
  assumes "authenticate a authHeader = Inr claims"
    and "TicketID req \<noteq> 0" and "PaymentDetails req \<noteq> []"
    and "\<not> c_fetch_err env"
    and "First_booking (\<lambda>b. B_TicketID b = TicketID req \<and> B_UserID b = UserID claims
                              \<and> B_Status b = ''reserved'') (DB w) = Some booking"
    and "c_now env \<le> B_ExpiresAt booking"
    and "GetTicketLockOwner (c_owner_err env) (c_owner_time env) (Redis w) (TicketID req)
           = Some (UserID claims)"
    and "pay (paymentReq (DB w) booking claims req) = Inr resp" and "Success resp"
    and "tickets (DB w) (B_TicketID booking) = Some t"
  shows "ConfirmBooking a pay env authHeader (Some req) w =
     (if c_booking_update_err env then
        ((StatusInternalServerError, ErrorBody ''Failed to confirm booking''), w)
      else case bigint_in (c_bigint env) (PI_ID (Intent resp)) of
        None \<Rightarrow> ((StatusInternalServerError, ErrorBody ''Failed to confirm booking''), w)
      | Some paymentID \<Rightarrow>
      if c_ticket_update_err env then
        ((StatusInternalServerError, ErrorBody ''Failed to update ticket''), w)
      else if c_commit_err env then
        ((StatusInternalServerError, ErrorBody ''Failed to confirm booking''), w)
      else
        ((StatusOK, ConfirmBody (B_ID booking) (TicketID req) (PI_ID (Intent resp))
                      ''Booking confirmed successfully''),
         \<lparr>DB = Update_ticket
                 (Update_booking (DB w) (B_ID booking)
                    (\<lambda>b. b\<lparr>B_Status := ''confirmed'', B_PaymentID := paymentID\<rparr>))
                 (B_TicketID booking)
                 (\<lambda>t. t\<lparr>T_Status := ''booked'', T_UserID := Some (UserID claims)\<rparr>),
           Redis = UnlockTicket (c_unlock_err env) (Redis w) (TicketID req)\<rparr>))"
  using assms by (simp add: ConfirmBooking_def split: option.splits)

text \<open>
  With the gateway of the repository the paid path never commits: after a payment that
  succeeded the handler answers 500 and the reservation stays as it was.
\<close>

lemma ConfirmBooking_mock_paid:
  assumes "authenticate a authHeader = Inr claims"
    and "TicketID req \<noteq> 0" and "PaymentDetails req \<noteq> []"
    and "\<not> c_fetch_err env"
    and "First_booking (\<lambda>b. B_TicketID b = TicketID req \<and> B_UserID b = UserID claims
                              \<and> B_Status b = ''reserved'') (DB w) = Some booking"
    and "c_now env \<le> B_ExpiresAt booking"
    and "GetTicketLockOwner (c_owner_err env) (c_owner_time env) (Redis w) (TicketID req)
           = Some (UserID claims)"
    and "draw < rate"
  shows "ConfirmBooking a (MockStripe rate draw now) env authHeader (Some req) w
           = ((StatusInternalServerError, ErrorBody ''Failed to confirm booking''), w)"
  using assms CreatePaymentIntent_paid [of draw rate now "paymentReq (DB w) booking claims req"]
    bigint_in_mock_id [of "c_bigint env" rate draw now "paymentReq (DB w) booking claims req"]
  by (simp add: ConfirmBooking_def MockStripe_def)

lemma ConfirmBooking_mock_never_OK:
  "fst (fst (ConfirmBooking a (MockStripe rate draw now) env authHeader body w)) \<noteq> StatusOK"
  using bigint_in_mock_id [of "c_bigint env" rate draw now]
  by (auto simp: ConfirmBooking_def MockStripe_def Let_def
      dest: authenticate_Inl split: sum.splits option.splits)

section \<open>How the example stores arise\<close>

text \<open>
  The stores the examples start from are left by the handlers themselves: alice
  reserves ticket 7 and cancels; bob reserves it.
\<close>

lemma demo_reserve_alice:
  "ReserveTicket demo_auth demo_reserve_env ''Bearer alice'' (Some 7)
       (demo_world ''available'' None [] Map.empty)
     = ((StatusOK, ReserveBody 1 7 (10 * Minute) ''Ticket reserved successfully''),
        demo_world ''reserved'' None [demo_booking 1 1 ''reserved'' False]
          [''ticket_lock:7'' \<mapsto> (''1'', 10 * Minute)])"
  by (simp add: ReserveTicket_def authenticate_def demo_defs LockTicket_def SetNX_def live_def
      Create_booking_def Update_ticket_def lock_key_7 format_uint_1 timestamptz_0
      timestamptz_10min)

lemma demo_cancel_alice:
  "CancelBooking demo_auth demo_cancel_env ''1'' ''Bearer alice''
       (demo_world ''reserved'' None [demo_booking 1 1 ''reserved'' False]
          [''ticket_lock:7'' \<mapsto> (''1'', 10 * Minute)])
     = ((StatusOK, MessageBody ''Booking cancelled successfully''),
        demo_world ''available'' None [demo_booking 1 1 ''cancelled'' False] Map.empty)"
  by (simp add: CancelBooking_def authenticate_def demo_defs First_booking_def
      Update_booking_def UnlockTicket_def Del_def Update_ticket_def lock_key_7 ParseUint32_1)

lemma demo_reserve_bob:
  "ReserveTicket demo_auth demo_reserve_env ''Bearer bob'' (Some 7)
       (demo_world ''available'' None [demo_booking 1 1 ''cancelled'' False] Map.empty)
     = ((StatusOK, ReserveBody 2 7 (10 * Minute) ''Ticket reserved successfully''),
        demo_world ''reserved'' None
          [demo_booking 1 1 ''cancelled'' False, demo_booking 2 2 ''reserved'' False]
          [''ticket_lock:7'' \<mapsto> (''2'', 10 * Minute)])"
  by (simp add: ReserveTicket_def authenticate_def demo_defs LockTicket_def SetNX_def live_def
      Create_booking_def Update_ticket_def lock_key_7 format_uint_2 timestamptz_0
      timestamptz_10min)

section \<open>The claims\<close>


text \<open>
  C1. The claim: every move of a Booking to confirmed, and every return of a Ticket to
  available on cancel or on expiry, writes the Booking row and the Ticket row together in
  one transaction, on every path of Confirm and Cancel, the clean-up of an expired
  reservation included. The clean-up path of \<open>ConfirmBooking\<close> runs \<open>Delete\<close> and
  \<open>Update\<close> as two statements outside any transaction and drops their errors: when
  the second one fails, the reservation of alice is deleted and ticket 7 keeps its
  status \<open>reserved\<close>, with no lock and no booking left for it. The store is the one
  alice's Reserve leaves (\<open>demo_reserve_alice\<close>), eleven minutes later.
\<close>

theorem C1_expired_cleanup_splits_the_rows:
  "ConfirmBooking demo_auth (MockStripe 1 0 0) ((demo_confirm_env (11 * Minute))\<lparr>c_reset_err := True\<rparr>) ''Bearer alice''
      (Some \<lparr>TicketID = 7, PaymentDetails = ''card''\<rparr>)
      (demo_world ''reserved'' None [demo_booking 1 1 ''reserved'' False]
         [''ticket_lock:7'' \<mapsto> (''1'', 10 * Minute)])
   = ((StatusGone, ErrorBody ''Reservation has expired''),
      demo_world ''reserved'' None [demo_booking 1 1 ''reserved'' True] Map.empty)"
  by (simp add: ConfirmBooking_def authenticate_def demo_defs First_booking_def Delete_booking_def
      Update_booking_def UnlockTicket_def Del_def Update_ticket_def lock_key_7 Minute_def)

text \<open>
  C2. The claim: Cancel succeeds only for a booking of the caller with status reserved
  or confirmed, and a second Cancel of a cancelled booking is answered NotFound or
  Conflict and frees no ticket. \<open>CancelBooking\<close> never reads the status: the second
  Cancel of alice's booking (\<open>demo_cancel_alice\<close> was the first) is answered 200, and
  when bob has reserved ticket 7 in the meantime (\<open>demo_reserve_bob\<close>), it sets the
  ticket \<open>available\<close> under his reservation and deletes his lock.
\<close>

theorem C2_cancel_of_cancelled_booking_frees_ticket:
  "CancelBooking demo_auth demo_cancel_env ''1'' ''Bearer alice''
      (demo_world ''available'' None [demo_booking 1 1 ''cancelled'' False] Map.empty)
   = ((StatusOK, MessageBody ''Booking cancelled successfully''),
      demo_world ''available'' None [demo_booking 1 1 ''cancelled'' False] Map.empty)
   \<and>
   CancelBooking demo_auth demo_cancel_env ''1'' ''Bearer alice''
      (demo_world ''reserved'' None
         [demo_booking 1 1 ''cancelled'' False, demo_booking 2 2 ''reserved'' False]
         [''ticket_lock:7'' \<mapsto> (''2'', 10 * Minute)])
   = ((StatusOK, MessageBody ''Booking cancelled successfully''),
      demo_world ''available'' None
         [demo_booking 1 1 ''cancelled'' False, demo_booking 2 2 ''reserved'' False]
         Map.empty)"
  by (simp add: CancelBooking_def authenticate_def demo_defs First_booking_def
      Update_booking_def UnlockTicket_def Del_def Update_ticket_def lock_key_7 ParseUint32_1)

text \<open>
  C3. The claim: a successful Reserve on an available ticket creates a Booking with
  status reserved and sets the Ticket's status to locked, the statuses of a ticket being
  exactly available, locked and booked. \<open>ReserveTicket\<close> writes \<open>reserved\<close> on the
  ticket, which is none of the three; no service writes \<open>locked\<close>.
\<close>

theorem C3_status_locked_counterexample:
  "fst (fst (ReserveTicket demo_auth demo_reserve_env ''Bearer alice'' (Some 7)
               (demo_world ''available'' None [] Map.empty))) = StatusOK
   \<and> map_option T_Status
        (tickets (DB (snd (ReserveTicket demo_auth demo_reserve_env ''Bearer alice'' (Some 7)
                             (demo_world ''available'' None [] Map.empty)))) 7)
       = Some ''reserved''
   \<and> ''reserved'' \<notin> {''available'', ''locked'', ''booked''}"
  by (simp add: ReserveTicket_def authenticate_def demo_defs LockTicket_def SetNX_def live_def
      Create_booking_def Update_ticket_def lock_key_7 format_uint_1 timestamptz_0
      timestamptz_10min)

text \<open>
  C3, as the code has it. A Reserve that answers 200 found the ticket \<open>available\<close>
  and has appended a Booking with status \<open>reserved\<close> for the caller; when the update
  of the ticket did not fail, the ticket now has status \<open>reserved\<close>. The statuses of
  a ticket are \<open>available\<close>, \<open>reserved\<close> and \<open>booked\<close>: Reserve, Confirm and
  Cancel leave every ticket with one of them when every ticket had one before.
\<close>

theorem C3_reserve_marks_ticket_reserved:
  assumes "ReserveTicket a env authHeader body w = ((StatusOK, answer), w')"
    and "\<not> r_update_err env"
  shows "(\<exists>claims ticketID t.
            authenticate a authHeader = Inr claims \<and> body = Some ticketID
          \<and> tickets (DB w) ticketID = Some t \<and> T_Status t = ''available''
          \<and> bookings (DB w') = bookings (DB w) @
               [\<lparr>B_ID = booking_seq (DB w), B_TicketID = ticketID, B_UserID = UserID claims,
                 B_Status = ''reserved'', B_ReservedAt = timestamptz (r_reserved_now env),
                 B_ExpiresAt = timestamptz (r_expires_now env + 10 * Minute),
                 B_PaymentID = 0, B_Deleted = False\<rparr>]
          \<and> tickets (DB w') = (tickets (DB w))(ticketID \<mapsto> t\<lparr>T_Status := ''reserved''\<rparr>))
     \<and> (statuses_ok (DB w) \<longrightarrow>
          statuses_ok (DB w')
        \<and> statuses_ok (DB (snd (ConfirmBooking a2 pay env2 authHeader2 body2 w)))
        \<and> statuses_ok (DB (snd (CancelBooking a3 env3 bookingIDStr authHeader3 w))))"
proof -
  from ReserveTicket_OK [OF assms(1)] assms(2)
  have "\<exists>claims ticketID t.
            authenticate a authHeader = Inr claims \<and> body = Some ticketID
          \<and> tickets (DB w) ticketID = Some t \<and> T_Status t = ''available''
          \<and> bookings (DB w') = bookings (DB w) @
               [\<lparr>B_ID = booking_seq (DB w), B_TicketID = ticketID, B_UserID = UserID claims,
                 B_Status = ''reserved'', B_ReservedAt = timestamptz (r_reserved_now env),
                 B_ExpiresAt = timestamptz (r_expires_now env + 10 * Minute),
                 B_PaymentID = 0, B_Deleted = False\<rparr>]
          \<and> tickets (DB w') = (tickets (DB w))(ticketID \<mapsto> t\<lparr>T_Status := ''reserved''\<rparr>)"
    by auto
  moreover have "statuses_ok (DB w) \<Longrightarrow> statuses_ok (DB w')"
    using statuses_ok_ReserveTicket [of w a env authHeader body] assms(1) by simp
  ultimately show ?thesis
    using statuses_ok_ConfirmBooking statuses_ok_CancelBooking by blast
qed

theorem C3_reserve_marks_ticket_reserved_witness:
  "ReserveTicket demo_auth demo_reserve_env ''Bearer alice'' (Some 7)
       (demo_world ''available'' None [] Map.empty)
     = ((StatusOK, ReserveBody 1 7 (10 * Minute) ''Ticket reserved successfully''),
        demo_world ''reserved'' None [demo_booking 1 1 ''reserved'' False]
          [''ticket_lock:7'' \<mapsto> (''1'', 10 * Minute)])
   \<and> \<not> r_update_err demo_reserve_env
   \<and> statuses_ok (DB (demo_world ''available'' None [] Map.empty))
   \<and> statuses_ok (DB (demo_world ''reserved'' None
                         [demo_booking 1 1 ''reserved'' False]
                         [''ticket_lock:7'' \<mapsto> (''1'', 10 * Minute)]))"
  using C3_reserve_marks_ticket_reserved [of demo_auth demo_reserve_env "''Bearer alice''"
      "Some 7" "demo_world ''available'' None [] Map.empty"
      "ReserveBody 1 7 (10 * Minute) ''Ticket reserved successfully''"
      "demo_world ''reserved'' None [demo_booking 1 1 ''reserved'' False]
          [''ticket_lock:7'' \<mapsto> (''1'', 10 * Minute)]"
      demo_auth "MockStripe 1 0 0" "demo_confirm_env 0" "''Bearer alice''" None
      demo_auth demo_cancel_env "''1''" "''Bearer alice''"]
  by (simp add: ReserveTicket_def authenticate_def demo_defs LockTicket_def SetNX_def live_def
      Create_booking_def Update_ticket_def lock_key_7 format_uint_1 timestamptz_0
      timestamptz_10min statuses_ok_def
      ticket_statuses_def)



text \<open>
  C5. The claim: Reserve followed by Confirm with a successful payment leaves the
  ticket booked and owned by the caller and the booking confirmed with a payment
  reference, written in one transaction. \<open>ConfirmBooking\<close> sets the column
  \<open>payment_id\<close>, which \<open>models.Booking\<close> declares a \<open>uint\<close>, to the gateway's
  id \<open>pi_mock_1_300\<close>: the store refuses the statement, the transaction is rolled
  back and alice, whose payment went through, is answered 500. Her booking is still
  \<open>reserved\<close> and ticket 7 is not hers. The store is the one her Reserve leaves
  (\<open>demo_reserve_alice\<close>); \<open>ConfirmBooking_mock_never_OK\<close> shows that no Confirm
  through this gateway is ever answered 200.
\<close>

theorem C5_paid_confirm_is_rolled_back:
  "Success (CreatePaymentIntent (9 / 10) (1 / 2) (5 * Minute)
              (paymentReq (DB (demo_world ''reserved'' None [demo_booking 1 1 ''reserved'' False]
                                 [''ticket_lock:7'' \<mapsto> (''1'', 10 * Minute)]))
                 (demo_booking 1 1 ''reserved'' False) \<lparr>UserID = 1\<rparr>
                 \<lparr>TicketID = 7, PaymentDetails = ''card''\<rparr>))
   \<and> PI_ID (Intent (CreatePaymentIntent (9 / 10) (1 / 2) (5 * Minute)
              (paymentReq (DB (demo_world ''reserved'' None [demo_booking 1 1 ''reserved'' False]
                                 [''ticket_lock:7'' \<mapsto> (''1'', 10 * Minute)]))
                 (demo_booking 1 1 ''reserved'' False) \<lparr>UserID = 1\<rparr>
                 \<lparr>TicketID = 7, PaymentDetails = ''card''\<rparr>))) = ''pi_mock_1_300''
   \<and> ConfirmBooking demo_auth (MockStripe (9 / 10) (1 / 2) (5 * Minute))
        (demo_confirm_env (5 * Minute)) ''Bearer alice''
        (Some \<lparr>TicketID = 7, PaymentDetails = ''card''\<rparr>)
        (demo_world ''reserved'' None [demo_booking 1 1 ''reserved'' False]
           [''ticket_lock:7'' \<mapsto> (''1'', 10 * Minute)])
     = ((StatusInternalServerError, ErrorBody ''Failed to confirm booking''),
        demo_world ''reserved'' None [demo_booking 1 1 ''reserved'' False]
          [''ticket_lock:7'' \<mapsto> (''1'', 10 * Minute)])"
  by (simp add: ConfirmBooking_def authenticate_def demo_defs lock_key_7 format_uint_1
      First_booking_def GetTicketLockOwner_def Get_def Sscanf_uint_1 Minute_def MockStripe_def
      CreatePaymentIntent_def paymentReq_def format_int_300 bigint_in_def is_letter_def
      byte_def)

text \<open>
  C6. The claim: for every failure of a Durable Store write after the lock was
  acquired, Reserve releases the lock before it returns the error. \<open>ReserveTicket\<close>
  does so for the creation of the booking (\<open>ReserveTicket_failed_create\<close>), but the
  write of the ticket status comes after the lock too and its error is dropped: when
  that write fails, the handler answers 200, the lock stays and ticket 7 is still
  \<open>available\<close> in the Durable Store.
\<close>

theorem C6_failed_ticket_update_keeps_lock:
  "r_update_err (demo_reserve_env\<lparr>r_update_err := True\<rparr>)
   \<and> ReserveTicket demo_auth (demo_reserve_env\<lparr>r_update_err := True\<rparr>) ''Bearer alice'' (Some 7)
       (demo_world ''available'' None [] Map.empty)
     = ((StatusOK, ReserveBody 1 7 (10 * Minute) ''Ticket reserved successfully''),
        demo_world ''available'' None [demo_booking 1 1 ''reserved'' False]
          [''ticket_lock:7'' \<mapsto> (''1'', 10 * Minute)])"
  by (simp add: ReserveTicket_def authenticate_def demo_defs LockTicket_def SetNX_def live_def
      Create_booking_def Update_ticket_def lock_key_7 format_uint_1 timestamptz_0
      timestamptz_10min)

text \<open>
  C7. In Confirm, when the call to the Payment Gateway fails or the payment is
  declined, the handler answers with the payment failure (500 for a failed call, 402
  for a declined payment) and changes nothing: the booking is still the caller's
  reservation and the lock is still held by the caller.
\<close>

theorem C7_payment_failure_no_mutation:
  assumes "authenticate a authHeader = Inr claims"
    and "TicketID req \<noteq> 0" and "PaymentDetails req \<noteq> []"
    and "\<not> c_fetch_err env"
    and "First_booking (\<lambda>b. B_TicketID b = TicketID req \<and> B_UserID b = UserID claims
                              \<and> B_Status b = ''reserved'') (DB w) = Some booking"
    and "c_now env \<le> B_ExpiresAt booking"
    and "GetTicketLockOwner (c_owner_err env) (c_owner_time env) (Redis w) (TicketID req)
           = Some (UserID claims)"
    and "(\<exists>err. pay (paymentReq (DB w) booking claims req) = Inl err)
         \<or> (\<exists>resp. pay (paymentReq (DB w) booking claims req) = Inr resp \<and> \<not> Success resp)"
    and "ConfirmBooking a pay env authHeader (Some req) w = (answer, w')"
  shows "w' = w
     \<and> (answer = (StatusInternalServerError, ErrorBody ''Payment processing failed'')
        \<or> (\<exists>details. answer = (StatusPaymentRequired, ErrorDetails ''Payment failed'' details)))
     \<and> First_booking (\<lambda>b. B_TicketID b = TicketID req \<and> B_UserID b = UserID claims
                              \<and> B_Status b = ''reserved'') (DB w') = Some booking
     \<and> GetTicketLockOwner (c_owner_err env) (c_owner_time env) (Redis w') (TicketID req)
           = Some (UserID claims)"
  using assms by (auto simp add: ConfirmBooking_def)

theorem C7_payment_failure_witness:
  "authenticate demo_auth ''Bearer alice'' = Inr \<lparr>UserID = 1\<rparr>
   \<and> \<not> Success (CreatePaymentIntent (1 / 2) (3 / 4) (5 * Minute)
                   (paymentReq (DB (demo_world ''reserved'' None
                        [demo_booking 1 1 ''reserved'' False]
                        [''ticket_lock:7'' \<mapsto> (''1'', 10 * Minute)]))
                      (demo_booking 1 1 ''reserved'' False) \<lparr>UserID = 1\<rparr>
                      \<lparr>TicketID = 7, PaymentDetails = ''card''\<rparr>))
   \<and> ConfirmBooking demo_auth (MockStripe (1 / 2) (3 / 4) (5 * Minute))
        (demo_confirm_env (5 * Minute)) ''Bearer alice''
        (Some \<lparr>TicketID = 7, PaymentDetails = ''card''\<rparr>)
        (demo_world ''reserved'' None [demo_booking 1 1 ''reserved'' False]
           [''ticket_lock:7'' \<mapsto> (''1'', 10 * Minute)])
       = ((StatusPaymentRequired,
           ErrorDetails ''Payment failed'' ''Mock payment failure - insufficient funds''),
          demo_world ''reserved'' None [demo_booking 1 1 ''reserved'' False]
            [''ticket_lock:7'' \<mapsto> (''1'', 10 * Minute)])
   \<and> GetTicketLockOwner False (5 * Minute) [''ticket_lock:7'' \<mapsto> (''1'', 10 * Minute)] 7
       = Some 1"
  using C7_payment_failure_no_mutation [of demo_auth "''Bearer alice''" "\<lparr>UserID = 1\<rparr>"
      "\<lparr>TicketID = 7, PaymentDetails = ''card''\<rparr>" "demo_confirm_env (5 * Minute)"
      "demo_world ''reserved'' None [demo_booking 1 1 ''reserved'' False]
         [''ticket_lock:7'' \<mapsto> (''1'', 10 * Minute)]"
      "demo_booking 1 1 ''reserved'' False"
      "MockStripe (1 / 2) (3 / 4) (5 * Minute)"
      "fst (ConfirmBooking demo_auth (MockStripe (1 / 2) (3 / 4) (5 * Minute))
        (demo_confirm_env (5 * Minute)) ''Bearer alice''
        (Some \<lparr>TicketID = 7, PaymentDetails = ''card''\<rparr>)
        (demo_world ''reserved'' None [demo_booking 1 1 ''reserved'' False]
           [''ticket_lock:7'' \<mapsto> (''1'', 10 * Minute)]))"
      "snd (ConfirmBooking demo_auth (MockStripe (1 / 2) (3 / 4) (5 * Minute))
        (demo_confirm_env (5 * Minute)) ''Bearer alice''
        (Some \<lparr>TicketID = 7, PaymentDetails = ''card''\<rparr>)
        (demo_world ''reserved'' None [demo_booking 1 1 ''reserved'' False]
           [''ticket_lock:7'' \<mapsto> (''1'', 10 * Minute)]))"]
  by (simp add: authenticate_def demo_defs First_booking_def GetTicketLockOwner_def Get_def
      lock_key_7 Sscanf_uint_1 Minute_def MockStripe_def CreatePaymentIntent_def paymentReq_def
      ConfirmBooking_def)

text \<open>
  C8. In Confirm on a reservation that has not expired, when the Lock Store does not
  name the caller as the holder of the ticket's lock (no entry, another holder, or the
  read fails), the handler answers 409 "Ticket lock has been released" and changes
  neither the Durable Store nor the Lock Store.
\<close>

theorem C8_lock_mismatch_no_mutation:
  assumes "authenticate a authHeader = Inr claims"
    and "TicketID req \<noteq> 0" and "PaymentDetails req \<noteq> []"
    and "\<not> c_fetch_err env"
    and "First_booking (\<lambda>b. B_TicketID b = TicketID req \<and> B_UserID b = UserID claims
                              \<and> B_Status b = ''reserved'') (DB w) = Some booking"
    and "c_now env \<le> B_ExpiresAt booking"
    and "GetTicketLockOwner (c_owner_err env) (c_owner_time env) (Redis w) (TicketID req)
           \<noteq> Some (UserID claims)"
  shows "ConfirmBooking a pay env authHeader (Some req) w
           = ((StatusConflict, ErrorBody ''Ticket lock has been released''), w)"
  using assms by (simp add: ConfirmBooking_def split: option.splits)

theorem C8_lock_mismatch_witness:
  "authenticate demo_auth ''Bearer alice'' = Inr \<lparr>UserID = 1\<rparr>
   \<and> First_booking (\<lambda>b. B_TicketID b = 7 \<and> B_UserID b = 1 \<and> B_Status b = ''reserved'')
        (DB (demo_world ''reserved'' None [demo_booking 1 1 ''reserved'' False]
               [''ticket_lock:7'' \<mapsto> (''2'', 12 * Minute)]))
       = Some (demo_booking 1 1 ''reserved'' False)
   \<and> GetTicketLockOwner False (5 * Minute)
        [''ticket_lock:7'' \<mapsto> (''2'', 12 * Minute)] 7 = Some 2
   \<and> ConfirmBooking demo_auth (MockStripe 1 0 0) (demo_confirm_env (5 * Minute)) ''Bearer alice''
        (Some \<lparr>TicketID = 7, PaymentDetails = ''card''\<rparr>)
        (demo_world ''reserved'' None [demo_booking 1 1 ''reserved'' False]
           [''ticket_lock:7'' \<mapsto> (''2'', 12 * Minute)])
       = ((StatusConflict, ErrorBody ''Ticket lock has been released''),
          demo_world ''reserved'' None [demo_booking 1 1 ''reserved'' False]
            [''ticket_lock:7'' \<mapsto> (''2'', 12 * Minute)])"
  using C8_lock_mismatch_no_mutation [of demo_auth "''Bearer alice''" "\<lparr>UserID = 1\<rparr>"
      "\<lparr>TicketID = 7, PaymentDetails = ''card''\<rparr>" "demo_confirm_env (5 * Minute)"
      "demo_world ''reserved'' None [demo_booking 1 1 ''reserved'' False]
         [''ticket_lock:7'' \<mapsto> (''2'', 12 * Minute)]"
      "demo_booking 1 1 ''reserved'' False" "MockStripe 1 0 0"]
  by (simp add: authenticate_def demo_defs First_booking_def GetTicketLockOwner_def Get_def
      lock_key_7 Sscanf_uint_2 Minute_def)

text \<open>
  C9. The claim: \<open>expires_at\<close> of a Booking created by Reserve equals its
  \<open>reserved_at\<close> plus 10 minutes, and the lock of the ticket lives 10 minutes.
  \<open>ReserveTicket\<close> reads the clock for \<open>ReservedAt\<close> and reads it again for
  \<open>ExpiresAt\<close>: when the clock has moved on by a microsecond between the two
  readings, the stored \<open>expires_at\<close> is 10 minutes and a microsecond after the stored
  \<open>reserved_at\<close>. The lock does expire 10 minutes after it was set.
\<close>

theorem C9_second_clock_reading_shifts_expiry:
  "ReserveTicket demo_auth (demo_reserve_env\<lparr>r_expires_now := Microsecond\<rparr>) ''Bearer alice''
       (Some 7) (demo_world ''available'' None [] Map.empty)
     = ((StatusOK, ReserveBody 1 7 (Microsecond + 10 * Minute) ''Ticket reserved successfully''),
        demo_world ''reserved'' None
          [(demo_booking 1 1 ''reserved'' False)\<lparr>B_ExpiresAt := Microsecond + 10 * Minute\<rparr>]
          [''ticket_lock:7'' \<mapsto> (''1'', 10 * Minute)])
   \<and> B_ExpiresAt ((demo_booking 1 1 ''reserved'' False)
                     \<lparr>B_ExpiresAt := Microsecond + 10 * Minute\<rparr>)
     \<noteq> B_ReservedAt ((demo_booking 1 1 ''reserved'' False)
                        \<lparr>B_ExpiresAt := Microsecond + 10 * Minute\<rparr>) + 10 * Minute"
  by (simp add: ReserveTicket_def authenticate_def demo_defs LockTicket_def SetNX_def live_def
      Create_booking_def Update_ticket_def lock_key_7 format_uint_1 timestamptz_def
      Microsecond_def Minute_def)

text \<open>
  C10. The listing of bookings answers with bookings only when the authenticated
  caller is the user asked for, every booking in the answer is a row of that user, and
  a caller who asks for another user is answered 403 without any booking.
\<close>

theorem C10_bookings_only_of_the_caller:
  "(\<forall>code found n. GetUserBookings a find_err userIDStr authHeader w = (code, BookingsBody found n)
       \<longrightarrow> (\<exists>claims. authenticate a authHeader = Inr claims
              \<and> ParseUint32 userIDStr = Some (UserID claims)
              \<and> (\<forall>b \<in> set found. B_UserID b = UserID claims \<and> b \<in> set (bookings (DB w)))))
   \<and> (\<forall>claims userID. authenticate a authHeader = Inr claims
         \<and> ParseUint32 userIDStr = Some userID \<and> UserID claims \<noteq> userID
       \<longrightarrow> GetUserBookings a find_err userIDStr authHeader w
             = (StatusForbidden, ErrorBody ''Access denied''))"
  by (auto simp add: GetUserBookings_def Find_bookings_def authenticate_def Let_def
      split: option.splits sum.splits if_splits)

theorem C10_bookings_only_of_the_caller_witness:
  "GetUserBookings demo_auth False ''1'' ''Bearer alice''
      (demo_world ''reserved'' None
         [demo_booking 1 1 ''cancelled'' False, demo_booking 2 2 ''reserved'' False]
         [''ticket_lock:7'' \<mapsto> (''2'', 10 * Minute)])
     = (StatusOK, BookingsBody [demo_booking 1 1 ''cancelled'' False] 1)
   \<and> B_UserID (demo_booking 1 1 ''cancelled'' False) = 1
   \<and> GetUserBookings demo_auth False ''1'' ''Bearer bob''
      (demo_world ''reserved'' None
         [demo_booking 1 1 ''cancelled'' False, demo_booking 2 2 ''reserved'' False]
         [''ticket_lock:7'' \<mapsto> (''2'', 10 * Minute)])
     = (StatusForbidden, ErrorBody ''Access denied'')"
  using C10_bookings_only_of_the_caller [of demo_auth False "''1''" "''Bearer alice''"
      "demo_world ''reserved'' None
         [demo_booking 1 1 ''cancelled'' False, demo_booking 2 2 ''reserved'' False]
         [''ticket_lock:7'' \<mapsto> (''2'', 10 * Minute)]"]
    C10_bookings_only_of_the_caller [of demo_auth False "''1''" "''Bearer bob''"
      "demo_world ''reserved'' None
         [demo_booking 1 1 ''cancelled'' False, demo_booking 2 2 ''reserved'' False]
         [''ticket_lock:7'' \<mapsto> (''2'', 10 * Minute)]"]
  by (simp add: GetUserBookings_def authenticate_def demo_defs Find_bookings_def ParseUint32_1)

end
